theory Spec2Isabelle
  imports Main "HOL-Library.Word"
begin

unbundle bit_operations_syntax

section \<open>Data model\<close>

text \<open>
  Package \<open>lnk\<close>, file \<open>bytes.go\<close>. A Go \<open>byte\<close> is an 8-bit word, \<open>uint16\<close>,
  \<open>uint32\<close> and \<open>uint64\<close> are words of that width, and Go's \<open>int\<close> is taken at its
  64-bit width: a \<open>64 word\<close> read through \<open>sint\<close>, so that \<open>+\<close> wraps as Go's does.
  A \<open>[]byte\<close> is a list of bytes and a Go \<open>string\<close> is the list of its bytes. A rune is
  an \<open>int32\<close>, a \<open>32 word\<close>.

  A call either returns or panics: \<open>Returns v\<close> and \<open>Panics msg\<close>.
\<close>

type_synonym byte = "8 word"
type_synonym uint16 = "16 word"
type_synonym uint32 = "32 word"
type_synonym uint64 = "64 word"
type_synonym goint = "64 word"
type_synonym rune = "32 word"
type_synonym gostring = "byte list"

datatype 'a outcome = Returns 'a | Panics string

section \<open>Decimal formatting (\<open>%d\<close>)\<close>

fun dec :: "nat \<Rightarrow> string" where
  "dec n =
     (if n < 10 then [''0123456789'' ! n]
      else dec (n div 10) @ [''0123456789'' ! (n mod 10)])"

declare dec.simps [simp del]

definition dec_int :: "int \<Rightarrow> string" where
  "dec_int i = (if i < 0 then ''-'' @ dec (nat (- i)) else dec (nat i))"

section \<open>Byte and bit masks\<close>

text \<open>
  \<open>byteMaskuint16 b n\<close>: the guard is \<open>n < 0 || n > 2\<close>. Go's shift of a \<open>uint16\<close> by a
  count of 16 or more gives 0, which is what \<open>push_bit\<close> and \<open>drop_bit\<close> do on a
  \<open>16 word\<close>; the shift count \<open>uint16(n*8)\<close> is read after the guard, where
  \<open>0 \<le> n \<le> 2\<close>.
\<close>

definition byteMaskuint16 :: "uint16 \<Rightarrow> goint \<Rightarrow> uint16 outcome" where
  "byteMaskuint16 b n =
     (if sint n < 0 \<or> sint n > 2
      then Panics (''invalid byte mask, got '' @ dec_int (sint n))
      else (let mask = push_bit (unat (ucast (n * 8) :: uint16)) (0xFF :: uint16)
            in Returns (drop_bit (unat (ucast (n * 8) :: uint16)) (b AND mask))))"

definition bitMaskuint32 :: "uint32 \<Rightarrow> goint \<Rightarrow> bool outcome" where
  "bitMaskuint32 b n =
     (if sint n < 0 \<or> sint n > 31
      then Panics (''invalid bit number, got '' @ dec_int (sint n))
      else Returns ((drop_bit (unat n) b AND 1) = 1))"

section \<open>Little-endian scalar codec\<close>

text \<open>
  \<open>binary.Write(&buf, binary.LittleEndian, u)\<close> appends the bytes of \<open>u\<close>, least
  significant first; \<open>binary.LittleEndian.UintN(b)\<close> reads them back from the front
  of \<open>b\<close>. The decoders panic on a buffer shorter than the width.
\<close>

definition uint16Byte :: "uint16 \<Rightarrow> byte list" where
  "uint16Byte u = [ucast u, ucast (drop_bit 8 u)]"

definition uint32Byte :: "uint32 \<Rightarrow> byte list" where
  "uint32Byte u = [ucast u, ucast (drop_bit 8 u), ucast (drop_bit 16 u), ucast (drop_bit 24 u)]"

definition uint64Byte :: "uint64 \<Rightarrow> byte list" where
  "uint64Byte u =
     [ucast u, ucast (drop_bit 8 u), ucast (drop_bit 16 u), ucast (drop_bit 24 u),
      ucast (drop_bit 32 u), ucast (drop_bit 40 u), ucast (drop_bit 48 u), ucast (drop_bit 56 u)]"

definition LittleEndian_Uint16 :: "byte list \<Rightarrow> uint16" where
  "LittleEndian_Uint16 b = ucast (b ! 0) OR push_bit 8 (ucast (b ! 1))"

definition LittleEndian_Uint32 :: "byte list \<Rightarrow> uint32" where
  "LittleEndian_Uint32 b =
     ucast (b ! 0) OR push_bit 8 (ucast (b ! 1)) OR push_bit 16 (ucast (b ! 2))
       OR push_bit 24 (ucast (b ! 3))"

definition LittleEndian_Uint64 :: "byte list \<Rightarrow> uint64" where
  "LittleEndian_Uint64 b =
     ucast (b ! 0) OR push_bit 8 (ucast (b ! 1)) OR push_bit 16 (ucast (b ! 2))
       OR push_bit 24 (ucast (b ! 3)) OR push_bit 32 (ucast (b ! 4))
       OR push_bit 40 (ucast (b ! 5)) OR push_bit 48 (ucast (b ! 6))
       OR push_bit 56 (ucast (b ! 7))"

definition uint16Little :: "byte list \<Rightarrow> uint16 outcome" where
  "uint16Little b =
     (if length b < 2
      then Panics (''input smaller than two bytes - got '' @ dec (length b))
      else Returns (LittleEndian_Uint16 b))"

definition uint32Little :: "byte list \<Rightarrow> uint32 outcome" where
  "uint32Little b =
     (if length b < 4
      then Panics (''input smaller than four bytes - got '' @ dec (length b))
      else Returns (LittleEndian_Uint32 b))"

definition uint64Little :: "byte list \<Rightarrow> uint64 outcome" where
  "uint64Little b =
     (if length b < 8
      then Panics (''input smaller than eight bytes - got '' @ dec (length b))
      else Returns (LittleEndian_Uint64 b))"

section \<open>Bounded slice reader\<close>

text \<open>
  A slice expression \<open>b[lo:hi]\<close> panics unless \<open>0 \<le> lo \<le> hi \<le> cap(b)\<close>; the buffer is
  taken with \<open>cap(b) = len(b)\<close>, and \<open>b[lo:]\<close> is \<open>b[lo:len(b)]\<close>. \<open>len(b)\<close> is
  \<open>int (length b)\<close>: a Go slice never holds more than \<open>2^63 - 1\<close> elements.

  \<open>ReadBytes b offset num\<close> compares \<open>offset\<close> and the wrapping sum \<open>offset+num\<close>
  with \<open>len(b)\<close>, then slices. The count it returns is the value of a Go \<open>int\<close>.
\<close>

definition slice_expr :: "byte list \<Rightarrow> int \<Rightarrow> int \<Rightarrow> byte list outcome" where
  "slice_expr b lo hi =
     (if 0 \<le> lo \<and> lo \<le> hi \<and> hi \<le> int (length b)
      then Returns (take (nat hi - nat lo) (drop (nat lo) b))
      else Panics ''runtime error: slice bounds out of range'')"

definition ReadBytes :: "byte list \<Rightarrow> goint \<Rightarrow> goint \<Rightarrow> (byte list \<times> int) outcome" where
  "ReadBytes b offset num =
     (if sint offset \<ge> int (length b) then Returns ([], 0)
      else if sint (offset + num) \<ge> int (length b) then
        (case slice_expr b (sint offset) (int (length b)) of
           Panics m \<Rightarrow> Panics m
         | Returns out \<Rightarrow> Returns (out, int (length out)))
      else
        (case slice_expr b (sint offset) (sint (offset + num)) of
           Panics m \<Rightarrow> Panics m
         | Returns out \<Rightarrow> Returns (out, sint num)))"

section \<open>Null-terminated single-byte strings\<close>

text \<open>
  \<open>bytes.IndexByte(data, c)\<close> is the index of the first \<open>c\<close> in \<open>data\<close>, or \<open>-1\<close>.
  \<open>readString\<close> slices \<open>data[:i]\<close> and converts the bytes to a string unchanged.
\<close>

fun IndexByte :: "byte list \<Rightarrow> byte \<Rightarrow> int" where
  "IndexByte [] c = -1"
| "IndexByte (x # xs) c =
     (if x = c then 0 else (let i = IndexByte xs c in if i = -1 then -1 else i + 1))"

definition readString :: "byte list \<Rightarrow> gostring outcome" where
  "readString data =
     (let i = IndexByte data 0x00;
          i = (if i = -1 then int (length data) else i)
      in slice_expr data 0 i)"

section \<open>Streaming input\<close>

text \<open>
  An \<open>io.Reader\<close> is the list of the bytes it has not yet delivered. \<open>binary.Read\<close>
  fills a buffer of the size of its target with \<open>io.ReadFull\<close>: a buffer of length 0
  is filled without touching the reader; otherwise an exhausted reader gives \<open>EOF\<close>,
  a reader with too few bytes is drained and gives \<open>unexpected EOF\<close>, and a reader
  with enough bytes delivers exactly \<open>n\<close> of them. The result is the error text or
  the bytes read, and the reader afterwards.
\<close>

type_synonym reader = "byte list"

definition ReadFull :: "nat \<Rightarrow> reader \<Rightarrow> (string + byte list) \<times> reader" where
  "ReadFull n r =
     (if n = 0 then (Inr [], r)
      else if r = [] then (Inl ''EOF'', r)
      else if length r < n then (Inl ''unexpected EOF'', [])
      else (Inr (take n r), drop n r))"

section \<open>Section framer\<close>

text \<open>
  \<open>readSection\<close> returns \<open>(data, nr, size, err)\<close>; the record holds the four values,
  \<open>nr\<close> being the payload the new reader will deliver (\<open>None\<close> for a nil reader) and
  \<open>err\<close> the error text (\<open>None\<close> for nil).
\<close>

record section_result =
  sec_data :: "byte list"
  sec_nr :: "reader option"
  sec_size :: int
  sec_err :: "string option"

definition section_error :: "byte list \<Rightarrow> string \<Rightarrow> section_result" where
  "section_error d msg = \<lparr>sec_data = d, sec_nr = None, sec_size = 0, sec_err = Some msg\<rparr>"

text \<open>
  The \<open>switch sSize\<close> of lines 58 to 89: the size prefix is read and decoded, and
  \<open>data\<close> starts as its little-endian bytes. \<open>Inl\<close> is the early return.
\<close>

definition read_size_msg :: "goint \<Rightarrow> string \<Rightarrow> string" where
  "read_size_msg sSize e =
     ''golnk.readSection: read size '' @ dec_int (sint sSize) @ '' bytes - '' @ e"

definition readSection_prefix ::
    "reader \<Rightarrow> goint \<Rightarrow> (section_result + uint64 \<times> byte list) \<times> reader" where
  "readSection_prefix r sSize =
     (if sSize = 2 then
        (case ReadFull 2 r of
           (Inl e, r') \<Rightarrow> (Inl (section_error [] (read_size_msg sSize e)), r')
         | (Inr bs, r') \<Rightarrow>
             (let size16 = LittleEndian_Uint16 bs
              in (Inr (ucast size16, uint16Byte size16), r')))
      else if sSize = 4 then
        (case ReadFull 4 r of
           (Inl e, r') \<Rightarrow> (Inl (section_error [] (read_size_msg sSize e)), r')
         | (Inr bs, r') \<Rightarrow>
             (let size32 = LittleEndian_Uint32 bs
              in (Inr (ucast size32, uint32Byte size32), r')))
      else if sSize = 8 then
        (case ReadFull 8 r of
           (Inl e, r') \<Rightarrow> (Inl (section_error [] (read_size_msg sSize e)), r')
         | (Inr bs, r') \<Rightarrow>
             (let sectionSize = LittleEndian_Uint64 bs
              in (Inr (sectionSize, uint64Byte sectionSize), r')))
      else
        (Inl (section_error []
           (''golnk.readSection: invalid sSize - got '' @ dec_int (sint sSize))), r))"

text \<open>
  \<open>make([]byte, n)\<close> calls the runtime's \<open>makeslice\<close>, which panics with
  \<open>len out of range\<close> when \<open>n\<close> read as an \<open>int\<close> is negative or the \<open>n\<close> bytes
  exceed \<open>maxAlloc\<close>, the largest allocation the runtime accepts: \<open>2^48\<close> bytes on
  linux/amd64, the platform modelled here. Both cases are \<open>n > maxAlloc\<close> for an
  unsigned 64-bit \<open>n\<close>. Below that limit the allocation is taken to find the memory
  it asks for.
\<close>

definition maxAlloc :: nat where
  "maxAlloc = 2 ^ 48"

text \<open>
  Lines 91 to 109. \<open>uint64(sSize)\<close> keeps the bits of \<open>sSize\<close> and the subtraction
  wraps. \<open>make([]byte, computedSize)\<close> panics above \<open>maxAlloc\<close>;
  \<open>int(sectionSize)\<close> reads the 64 bits as a signed value.
\<close>

definition computed_size_msg :: "uint64 \<Rightarrow> uint64 \<Rightarrow> string" where
  "computed_size_msg computedSize maxSize =
     ''golnk.readSection: invalid computed size got '' @ dec (unat computedSize)
       @ ''; expected a size < '' @ dec (unat maxSize)"

definition read_section_msg :: "uint64 \<Rightarrow> string \<Rightarrow> string" where
  "read_section_msg n e =
     ''golnk.readSection: read section '' @ dec (unat n) @ '' bytes - '' @ e"

definition readSection :: "reader \<Rightarrow> goint \<Rightarrow> uint64 \<Rightarrow> section_result outcome \<times> reader" where
  "readSection r sSize maxSize =
     (case readSection_prefix r sSize of
        (Inl early, r') \<Rightarrow> (Returns early, r')
      | (Inr (sectionSize, d), r') \<Rightarrow>
          (let computedSize = sectionSize - sSize in
           if computedSize > maxSize then
             (Returns (section_error d (computed_size_msg computedSize maxSize)), r')
           else if unat computedSize > maxAlloc then
             (Panics ''runtime error: makeslice: len out of range'', r')
           else
             (case ReadFull (unat computedSize) r' of
                (Inl e, r'') \<Rightarrow>
                  (Returns (section_error d (read_section_msg (sectionSize - sSize) e)), r'')
              | (Inr tempData, r'') \<Rightarrow>
                  (Returns \<lparr>sec_data = d @ tempData, sec_nr = Some tempData,
                            sec_size = sint sectionSize, sec_err = None\<rparr>, r''))))"

section \<open>UTF-8 decoding and encoding of runes\<close>

text \<open>
  \<open>utf8.DecodeRune\<close> of Go's standard library: the table \<open>first\<close> classifies the
  lead byte (\<open>0xF0\<close> ASCII, \<open>0xF1\<close> invalid, otherwise the sequence length in the low
  three bits and the index of the accepted range of the second byte in the high
  four), and an invalid or short sequence decodes to \<open>RuneError\<close> with width 1.
\<close>

definition RuneError :: rune where
  "RuneError = 0xFFFD"

definition utf8_first :: "byte \<Rightarrow> byte" where
  "utf8_first p0 =
     (if p0 < 0x80 then 0xF0
      else if p0 < 0xC2 then 0xF1
      else if p0 < 0xE0 then 0x02
      else if p0 = 0xE0 then 0x13
      else if p0 < 0xED then 0x03
      else if p0 = 0xED then 0x23
      else if p0 < 0xF0 then 0x03
      else if p0 = 0xF0 then 0x34
      else if p0 < 0xF4 then 0x04
      else if p0 = 0xF4 then 0x44
      else 0xF1)"

definition acceptRanges :: "nat \<Rightarrow> byte \<times> byte" where
  "acceptRanges i =
     (if i = 0 then (0x80, 0xBF)
      else if i = 1 then (0xA0, 0xBF)
      else if i = 2 then (0x80, 0x9F)
      else if i = 3 then (0x90, 0xBF)
      else (0x80, 0x8F))"

definition DecodeRune :: "byte list \<Rightarrow> rune \<times> nat" where
  "DecodeRune p =
     (if length p < 1 then (RuneError, 0)
      else
        (let p0 = p ! 0; x = utf8_first p0 in
         if x \<ge> 0xF0 then ((if x = 0xF0 then ucast p0 else RuneError), 1)
         else
           (let sz = unat (x AND 7); accept = acceptRanges (unat (drop_bit 4 x)) in
            if length p < sz then (RuneError, 1)
            else
              (let b1 = p ! 1 in
               if b1 < fst accept \<or> snd accept < b1 then (RuneError, 1)
               else if sz \<le> 2 then
                 (push_bit 6 (ucast (p0 AND 0x1F)) OR ucast (b1 AND 0x3F), 2)
               else
                 (let b2 = p ! 2 in
                  if b2 < 0x80 \<or> 0xBF < b2 then (RuneError, 1)
                  else if sz \<le> 3 then
                    (push_bit 12 (ucast (p0 AND 0x0F)) OR push_bit 6 (ucast (b1 AND 0x3F))
                       OR ucast (b2 AND 0x3F), 3)
                  else
                    (let b3 = p ! 3 in
                     if b3 < 0x80 \<or> 0xBF < b3 then (RuneError, 1)
                     else
                       (push_bit 18 (ucast (p0 AND 0x07)) OR push_bit 12 (ucast (b1 AND 0x3F))
                          OR push_bit 6 (ucast (b2 AND 0x3F)) OR ucast (b3 AND 0x3F), 4)))))))"

text \<open>
  The conversion \<open>string(runes)\<close> concatenates the UTF-8 encoding of each rune
  (\<open>utf8.EncodeRune\<close>); a surrogate half or a value beyond \<open>0x10FFFF\<close> is encoded as
  \<open>RuneError\<close>. The rune is compared as a \<open>uint32\<close>.
\<close>

definition encode3 :: "rune \<Rightarrow> byte list" where
  "encode3 r =
     [0xE0 OR ucast (drop_bit 12 r), 0x80 OR (ucast (drop_bit 6 r) AND 0x3F),
      0x80 OR (ucast r AND 0x3F)]"

definition EncodeRune :: "rune \<Rightarrow> byte list" where
  "EncodeRune r =
     (if r \<le> 0x7F then [ucast r]
      else if r \<le> 0x7FF then [0xC0 OR ucast (drop_bit 6 r), 0x80 OR (ucast r AND 0x3F)]
      else if r > 0x10FFFF \<or> (0xD800 \<le> r \<and> r \<le> 0xDFFF) then encode3 RuneError
      else if r \<le> 0xFFFF then encode3 r
      else
        [0xF0 OR ucast (drop_bit 18 r), 0x80 OR (ucast (drop_bit 12 r) AND 0x3F),
         0x80 OR (ucast (drop_bit 6 r) AND 0x3F), 0x80 OR (ucast r AND 0x3F)])"

definition string_of_runes :: "rune list \<Rightarrow> gostring" where
  "string_of_runes runes = concat (map EncodeRune runes)"

section \<open>Null-terminated double-byte strings\<close>

text \<open>
  The loop of \<open>readUnicodeString\<close>, on the index \<open>bitIndex\<close> and the runes gathered so
  far; \<open>data[bitIndex*2:]\<close> is \<open>drop (bitIndex * 2) data\<close>. Both index reads are in
  range under the loop condition.
\<close>

function readUnicodeString_loop :: "byte list \<Rightarrow> nat \<Rightarrow> rune list \<Rightarrow> rune list" where
  "readUnicodeString_loop data bitIndex runes =
     (if bitIndex < length data div 2 then
        (if data ! (bitIndex * 2) = 0x00 \<and> data ! (bitIndex * 2 + 1) = 0x00 then runes
         else readUnicodeString_loop data (bitIndex + 1)
                (runes @ [fst (DecodeRune (drop (bitIndex * 2) data))]))
      else runes)"
  by pat_completeness auto
termination
  by (relation "measure (\<lambda>(data, bitIndex, runes). length data div 2 - bitIndex)") auto

declare readUnicodeString_loop.simps [simp del]

definition readUnicodeString_runes :: "byte list \<Rightarrow> rune list" where
  "readUnicodeString_runes data = readUnicodeString_loop data 0 []"

definition readUnicodeString :: "byte list \<Rightarrow> gostring" where
  "readUnicodeString data = string_of_runes (readUnicodeString_runes data)"

section \<open>Length-prefixed strings\<close>

definition toInt32 :: "byte \<Rightarrow> byte \<Rightarrow> rune" where
  "toInt32 h l = push_bit 8 (ucast l) OR ucast h"

text \<open>
  \<open>readStringData\<close> returns \<open>(str, err)\<close>. The length is a \<open>uint16\<close> and
  \<open>size = size * 2\<close> is a \<open>uint16\<close> product. \<open>content_size\<close> is the length of the
  buffer \<open>b\<close> that is then filled from the reader. Inside the rune loop every index is
  below \<open>len(b)\<close>, so no step panics and the deferred \<open>recover\<close> never changes the
  result.
\<close>

definition content_size :: "uint16 \<Rightarrow> bool \<Rightarrow> uint16" where
  "content_size size0 isUnicode = (if isUnicode then size0 * 2 else size0)"

definition pair_runes :: "byte list \<Rightarrow> uint16 \<Rightarrow> rune list" where
  "pair_runes b sz =
     map (\<lambda>bitIndex.
            if bitIndex * 2 + 1 < length b
            then toInt32 (b ! (bitIndex * 2)) (b ! (bitIndex * 2 + 1))
            else toInt32 (b ! (bitIndex * 2)) 0)
         [0 ..< unat sz div 2]"

definition readStringData :: "reader \<Rightarrow> bool \<Rightarrow> (gostring \<times> string option) \<times> reader" where
  "readStringData r isUnicode =
     (case ReadFull 2 r of
        (Inl e, r') \<Rightarrow> (([], Some (''golnk.readStringData: read size - '' @ e)), r')
      | (Inr bs, r') \<Rightarrow>
          (let sz = content_size (LittleEndian_Uint16 bs) isUnicode in
           case ReadFull (unat sz) r' of
             (Inl e, r'') \<Rightarrow> (([], Some (''golnk.readStringData: read bytes - '' @ e)), r'')
           | (Inr b, r'') \<Rightarrow>
               (if isUnicode then ((string_of_runes (pair_runes b sz), None), r'')
                else ((b, None), r''))))"

section \<open>Properties of results\<close>

text \<open>
  A call of \<open>readSection\<close> succeeds when it returns with a nil error, and reports a
  decode error when it returns with a non-nil one; a panic is neither.
\<close>

definition succeeds :: "section_result outcome \<Rightarrow> bool" where
  "succeeds out = (case out of Returns res \<Rightarrow> sec_err res = None | Panics m \<Rightarrow> False)"

definition decode_error :: "section_result outcome \<Rightarrow> bool" where
  "decode_error out = (case out of Returns res \<Rightarrow> sec_err res \<noteq> None | Panics m \<Rightarrow> False)"

text \<open>
  The pair-aligned two-byte units of a buffer, in order; an odd trailing byte belongs
  to no unit. This is the reading of the buffer that the double-byte scanner is
  measured against, not a function of the source.
\<close>

fun pairs :: "byte list \<Rightarrow> (byte \<times> byte) list" where
  "pairs (a # b # rest) = (a, b) # pairs rest"
| "pairs rest = []"

section \<open>Scalar codec: round trips\<close>

lemma bit_byte_at:
  fixes u :: "'a::len word"
  shows "bit (push_bit k (ucast (ucast (drop_bit k u) :: byte) :: 'a word)) n
           \<longleftrightarrow> k \<le> n \<and> n < k + 8 \<and> bit u n"
  by (auto simp: bit_simps dest: bit_imp_le_length)

lemma bit_byte_0:
  fixes u :: "'a::len word"
  shows "bit (ucast (ucast u :: byte) :: 'a word) n \<longleftrightarrow> n < 8 \<and> bit u n"
  by (auto simp: bit_simps dest: bit_imp_le_length)

lemma uint16_roundtrip: "LittleEndian_Uint16 (uint16Byte v) = v"
proof (rule bit_word_eqI)
  fix n assume "n < LENGTH(16)"
  then have "n < 16" by simp
  then show "bit (LittleEndian_Uint16 (uint16Byte v)) n \<longleftrightarrow> bit v n"
    unfolding LittleEndian_Uint16_def uint16Byte_def
    by (simp add: bit_or_iff bit_byte_at bit_byte_0) arith
qed

lemma uint32_roundtrip: "LittleEndian_Uint32 (uint32Byte v) = v"
proof (rule bit_word_eqI)
  fix n assume "n < LENGTH(32)"
  then have "n < 32" by simp
  then show "bit (LittleEndian_Uint32 (uint32Byte v)) n \<longleftrightarrow> bit v n"
    unfolding LittleEndian_Uint32_def uint32Byte_def
    by (simp add: bit_or_iff bit_byte_at bit_byte_0) arith
qed

lemma uint64_roundtrip: "LittleEndian_Uint64 (uint64Byte v) = v"
proof (rule bit_word_eqI)
  fix n assume "n < LENGTH(64)"
  then have "n < 64" by simp
  then show "bit (LittleEndian_Uint64 (uint64Byte v)) n \<longleftrightarrow> bit v n"
    unfolding LittleEndian_Uint64_def uint64Byte_def
    by (simp add: bit_or_iff bit_byte_at bit_byte_0) arith
qed

text \<open>
  Claim C9. Encoding an unsigned 16-, 32- or 64-bit value with \<open>uintNByte\<close> and decoding
  the bytes with \<open>uintNLittle\<close> returns the original value, for every value.
\<close>

theorem scalar_codec_roundtrip:
  "uint16Little (uint16Byte v16) = Returns v16 \<and>
   uint32Little (uint32Byte v32) = Returns v32 \<and>
   uint64Little (uint64Byte v64) = Returns v64"
proof -
  have "length (uint16Byte v16) = 2" "length (uint32Byte v32) = 4" "length (uint64Byte v64) = 8"
    by (simp_all add: uint16Byte_def uint32Byte_def uint64Byte_def)
  then show ?thesis
    by (simp add: uint16Little_def uint32Little_def uint64Little_def
          uint16_roundtrip uint32_roundtrip uint64_roundtrip)
qed

section \<open>Byte masks: the index guard\<close>

lemma byteMaskuint16_low: "byteMaskuint16 b 0 = Returns (b AND 0xFF)"
  by (simp add: byteMaskuint16_def)

lemma byteMaskuint16_high: "byteMaskuint16 b 1 = Returns (drop_bit 8 b)"
proof -
  have "drop_bit 8 (b AND push_bit 8 (mask 8)) = drop_bit 8 b"
    by (rule bit_word_eqI) (auto simp: bit_simps dest: bit_imp_le_length)
  moreover have "(0xFF :: uint16) = mask 8"
    by (simp add: mask_eq_exp_minus_1)
  ultimately show ?thesis by (simp add: byteMaskuint16_def)
qed

lemma byteMaskuint16_panics:
  "sint n < 0 \<or> 2 < sint n \<Longrightarrow> \<exists>m. byteMaskuint16 b n = Panics m"
  by (auto simp add: byteMaskuint16_def)

text \<open>
  Claim C5. \<open>byteMaskuint16\<close> gives the low byte at index 0 and the high byte at
  index 1 (\<open>byteMaskuint16_low\<close>, \<open>byteMaskuint16_high\<close>) and panics below 0 and above
  2 (\<open>byteMaskuint16_panics\<close>). At index 2, outside \<open>{0,1}\<close>, the guard \<open>n > 2\<close> lets
  the call through: the mask \<open>0xFF << 16\<close> is 0 in 16 bits and the function returns 0
  for every argument instead of panicking.
\<close>

theorem byteMaskuint16_index_2: "byteMaskuint16 b 2 = Returns 0"
  by (simp add: byteMaskuint16_def)

section \<open>Null-terminated single-byte strings: the first zero byte\<close>

lemma IndexByte_range:
  "IndexByte xs c = -1 \<or> (0 \<le> IndexByte xs c \<and> IndexByte xs c < int (length xs))"
  by (induction xs) (auto simp: Let_def)

lemma IndexByte_notin: "IndexByte xs c = -1 \<longleftrightarrow> c \<notin> set xs"
proof (induction xs)
  case Nil
  then show ?case by simp
next
  case (Cons x xs)
  with IndexByte_range [of xs c] show ?case by (auto simp: Let_def)
qed

lemma take_IndexByte:
  "IndexByte xs c \<noteq> -1 \<Longrightarrow> take (nat (IndexByte xs c)) xs = takeWhile (\<lambda>b. b \<noteq> c) xs"
proof (induction xs)
  case Nil
  then show ?case by simp
next
  case (Cons x xs)
  show ?case
  proof (cases "x = c")
    case True
    then show ?thesis by simp
  next
    case False
    with Cons.prems have ne: "IndexByte xs c \<noteq> -1"
      by (auto simp: Let_def split: if_splits)
    with IndexByte_range [of xs c] have "0 \<le> IndexByte xs c" by auto
    then have "nat (IndexByte xs c + 1) = Suc (nat (IndexByte xs c))" by simp
    with False ne Cons.IH show ?thesis by (simp add: Let_def)
  qed
qed

lemma takeWhile_stop:
  "c \<notin> set pre \<Longrightarrow> takeWhile (\<lambda>b. b \<noteq> c) (pre @ c # post) = pre"
  by (induction pre) auto

lemma takeWhile_all: "c \<notin> set xs \<Longrightarrow> takeWhile (\<lambda>b. b \<noteq> c) xs = xs"
  by (induction xs) auto

lemma readString_takeWhile: "readString data = Returns (takeWhile (\<lambda>b. b \<noteq> 0) data)"
proof (cases "IndexByte data 0 = -1")
  case True
  then have "0 \<notin> set data" by (simp add: IndexByte_notin)
  then have tw: "takeWhile (\<lambda>b. b \<noteq> 0) data = data"
    by (rule takeWhile_all)
  show ?thesis unfolding tw using True by (simp add: readString_def slice_expr_def)
next
  case False
  with IndexByte_range [of data 0]
  have "0 \<le> IndexByte data 0" "IndexByte data 0 < int (length data)" by auto
  with False take_IndexByte [OF False] show ?thesis
    by (simp add: readString_def slice_expr_def)
qed

text \<open>
  Claim C8. For every buffer \<open>readString\<close> returns (it never panics) the longest
  prefix free of zero bytes: the bytes strictly before the first zero byte of a buffer
  \<open>pre @ 0 # post\<close> whose \<open>pre\<close> holds no zero, and the whole buffer when it holds no
  zero byte at all.
\<close>

theorem readString_first_zero:
  "readString data = Returns (takeWhile (\<lambda>b. b \<noteq> 0) data) \<and>
   (0 \<notin> set pre \<longrightarrow> readString (pre @ 0 # post) = Returns pre) \<and>
   (0 \<notin> set data \<longrightarrow> readString data = Returns data)"
  by (simp add: readString_takeWhile takeWhile_stop takeWhile_all del: takeWhile_eq_all_conv)

theorem readString_first_zero_witness:
  "readString [0x41, 0x42, 0x43] = Returns [0x41, 0x42, 0x43] \<and>
   readString [0x41, 0x42, 0x00, 0x43] = Returns [0x41, 0x42]"
  using readString_first_zero [of "[0x41, 0x42, 0x43]" "[0x41, 0x42]" "[0x43]"]
  by simp

section \<open>Bounded slice reader: clamping, negative arguments, overflow\<close>

lemma sint_add_no_wrap:
  fixes a b :: goint
  assumes "- (2 ^ 63) \<le> sint a + sint b" "sint a + sint b < 2 ^ 63"
  shows "sint (a + b) = sint a + sint b"
  using assms by (simp add: sint_word_add signed_take_bit_int_eq_self)

text \<open>
  While \<open>offset + num\<close> stays below \<open>2^63\<close>, non-negative arguments are clamped to the
  buffer: nothing at or past the end, the rest of the buffer when the request runs
  over it, and exactly \<open>num\<close> bytes otherwise.
\<close>

lemma ReadBytes_clamps:
  assumes "0 \<le> sint offset" "0 \<le> sint num" "sint offset + sint num < 2 ^ 63"
  shows "ReadBytes b offset num =
           (if int (length b) \<le> sint offset then Returns ([], 0)
            else if int (length b) \<le> sint offset + sint num
              then Returns (drop (nat (sint offset)) b, int (length b) - sint offset)
            else Returns (take (nat (sint num)) (drop (nat (sint offset)) b), sint num))"
proof -
  have "sint (offset + num) = sint offset + sint num"
    using assms by (intro sint_add_no_wrap) simp_all
  with assms show ?thesis
    by (auto simp add: ReadBytes_def slice_expr_def nat_add_distrib)
qed

text \<open>
  Claim C6. The clamping holds for non-negative \<open>offset\<close> and \<open>num\<close> whose sum fits a Go
  \<open>int\<close> (\<open>ReadBytes_clamps\<close>). When the sum overflows it wraps to a negative number,
  the test \<open>offset+num >= len(b)\<close> fails and the slice \<open>b[offset : offset+num]\<close>
  panics: on the two-byte buffer, offset 1 and count \<open>2^63 - 1\<close> the call panics
  instead of returning the one remaining byte.
\<close>

theorem ReadBytes_sum_overflow:
  "ReadBytes [0, 0] 1 0x7FFFFFFFFFFFFFFF = Panics ''runtime error: slice bounds out of range''"
  by (simp add: ReadBytes_def slice_expr_def)

text \<open>
  Claim C10. Outside the non-negative arguments \<open>ReadBytes\<close> panics: for every negative
  \<open>offset\<close> (whatever the buffer and the count, so for offset \<open>-1\<close> on a non-empty
  buffer), and for every offset inside the buffer with a negative count.
\<close>

theorem ReadBytes_negative_panics:
  "(sint offset < 0 \<longrightarrow> (\<exists>m. ReadBytes b offset num = Panics m)) \<and>
   (0 \<le> sint offset \<and> sint offset < int (length b) \<and> sint num < 0
      \<longrightarrow> (\<exists>m. ReadBytes b offset num = Panics m))"
proof (intro conjI impI)
  assume "sint offset < 0"
  then show "\<exists>m. ReadBytes b offset num = Panics m"
    by (simp add: ReadBytes_def slice_expr_def)
next
  assume a: "0 \<le> sint offset \<and> sint offset < int (length b) \<and> sint num < 0"
  have lo: "- (2 ^ 63) \<le> sint num" using sint_ge [of num] by simp
  have hi: "sint offset < 2 ^ 63" using sint_lt [of offset] by simp
  have "sint (offset + num) = sint offset + sint num"
    using a lo hi by (intro sint_add_no_wrap) simp_all
  with a show "\<exists>m. ReadBytes b offset num = Panics m"
    by (simp add: ReadBytes_def slice_expr_def)
qed

theorem ReadBytes_negative_panics_witness:
  "(\<exists>m. ReadBytes [1] (-1) 0 = Panics m) \<and> (\<exists>m. ReadBytes [1, 2, 3] 1 (-1) = Panics m)"
  using ReadBytes_negative_panics [of "-1" "[1]" 0]
        ReadBytes_negative_panics [of 1 "[1, 2, 3]" "-1"]
  by simp

section \<open>Section framer\<close>

lemma ReadFull_append: "ReadFull (length bs) (bs @ rest) = (Inr bs, rest)"
  by (auto simp: ReadFull_def)

lemma length_uintByte [simp]:
  "length (uint16Byte a) = 2" "length (uint32Byte b) = 4" "length (uint64Byte c) = 8"
  by (simp_all add: uint16Byte_def uint32Byte_def uint64Byte_def)

lemma prefix16: "readSection_prefix (uint16Byte v @ rest) 2 = (Inr (ucast v, uint16Byte v), rest)"
  using ReadFull_append [of "uint16Byte v" rest]
  by (simp add: readSection_prefix_def uint16_roundtrip)

lemma prefix32: "readSection_prefix (uint32Byte v @ rest) 4 = (Inr (ucast v, uint32Byte v), rest)"
  using ReadFull_append [of "uint32Byte v" rest]
  by (simp add: readSection_prefix_def uint32_roundtrip)

lemma prefix64: "readSection_prefix (uint64Byte v @ rest) 8 = (Inr (v, uint64Byte v), rest)"
  using ReadFull_append [of "uint64Byte v" rest]
  by (simp add: readSection_prefix_def uint64_roundtrip)

lemma section_too_large:
  assumes "readSection_prefix r sSize = (Inr (sectionSize, d), r')"
    and "maxSize < sectionSize - sSize"
  shows "readSection r sSize maxSize =
           (Returns (section_error d (computed_size_msg (sectionSize - sSize) maxSize)), r')"
  using assms by (simp add: readSection_def)


lemma section_underflow:
  assumes p: "readSection_prefix r sSize = (Inr (sectionSize, d), r')"
    and under: "sectionSize < sSize" and w: "sSize \<le> 8"
  shows "readSection r sSize maxSize =
           (if maxSize < sectionSize - sSize
            then (Returns (section_error d (computed_size_msg (sectionSize - sSize) maxSize)), r')
            else (Panics ''runtime error: makeslice: len out of range'', r'))"
proof -
  have le8: "unat sSize \<le> 8" using w by (simp add: word_le_nat_alt)
  have lt: "unat sectionSize < unat sSize" using under by (simp add: word_less_nat_alt)
  then have "unat (sectionSize - sSize) = unat sectionSize + 2 ^ 64 - unat sSize"
    by (simp add: unat_sub_if')
  with le8 have "maxAlloc < unat (sectionSize - sSize)"
    by (simp add: maxAlloc_def)
  with p show ?thesis by (simp add: readSection_def Let_def)
qed

lemma unat_ucast16: "unat (ucast (v :: uint16) :: uint64) = unat v"
  by (simp add: unsigned_ucast_eq take_bit_nat_eq_self_iff)
    (rule less_trans [OF unsigned_less], simp)

lemma unat_ucast32: "unat (ucast (v :: uint32) :: uint64) = unat v"
  by (simp add: unsigned_ucast_eq take_bit_nat_eq_self_iff)
    (rule less_trans [OF unsigned_less], simp)


text \<open>
  Claim C3. For each prefix width, when the computed payload size (the declared
  size minus the width, in 64 bits) is strictly above the ceiling, \<open>readSection\<close>
  returns the prefix bytes with the error text that prints the computed size and the
  ceiling in decimal, and the reader is left exactly after the size prefix.
\<close>

theorem readSection_ceiling:
  "(maxSize < ucast v16 - 2 \<longrightarrow>
      readSection (uint16Byte v16 @ rest) 2 maxSize =
        (Returns \<lparr>sec_data = uint16Byte v16, sec_nr = None, sec_size = 0,
           sec_err = Some (''golnk.readSection: invalid computed size got ''
             @ dec (unat (ucast v16 - 2 :: uint64)) @ ''; expected a size < '' @ dec (unat maxSize))\<rparr>,
         rest)) \<and>
   (maxSize < ucast v32 - 4 \<longrightarrow>
      readSection (uint32Byte v32 @ rest) 4 maxSize =
        (Returns \<lparr>sec_data = uint32Byte v32, sec_nr = None, sec_size = 0,
           sec_err = Some (''golnk.readSection: invalid computed size got ''
             @ dec (unat (ucast v32 - 4 :: uint64)) @ ''; expected a size < '' @ dec (unat maxSize))\<rparr>,
         rest)) \<and>
   (maxSize < v64 - 8 \<longrightarrow>
      readSection (uint64Byte v64 @ rest) 8 maxSize =
        (Returns \<lparr>sec_data = uint64Byte v64, sec_nr = None, sec_size = 0,
           sec_err = Some (''golnk.readSection: invalid computed size got ''
             @ dec (unat (v64 - 8)) @ ''; expected a size < '' @ dec (unat maxSize))\<rparr>,
         rest))"
  using section_too_large [OF prefix16, of maxSize v16 rest]
        section_too_large [OF prefix32, of maxSize v32 rest]
        section_too_large [OF prefix64, of maxSize v64 rest]
  by (simp add: section_error_def computed_size_msg_def)

theorem readSection_ceiling_witness:
  "readSection ([12, 0] @ [1, 2, 3]) 2 7 =
     (Returns \<lparr>sec_data = [12, 0], sec_nr = None, sec_size = 0,
        sec_err = Some ''golnk.readSection: invalid computed size got 10; expected a size < 7''\<rparr>,
      [1, 2, 3]) \<and>
   readSection ([12, 0, 0, 0] @ [1, 2, 3]) 4 7 =
     (Returns \<lparr>sec_data = [12, 0, 0, 0], sec_nr = None, sec_size = 0,
        sec_err = Some ''golnk.readSection: invalid computed size got 8; expected a size < 7''\<rparr>,
      [1, 2, 3]) \<and>
   readSection ([20, 0, 0, 0, 0, 0, 0, 0] @ [1, 2, 3]) 8 7 =
     (Returns \<lparr>sec_data = [20, 0, 0, 0, 0, 0, 0, 0], sec_nr = None, sec_size = 0,
        sec_err = Some ''golnk.readSection: invalid computed size got 12; expected a size < 7''\<rparr>,
      [1, 2, 3])"
  using readSection_ceiling [of 7 12 "[1, 2, 3]" 12 20]
  by (simp add: uint16Byte_def uint32Byte_def uint64Byte_def dec.simps)





text \<open>
  Claim C2, amended. For each prefix width, when the declared size is strictly
  smaller than the width, \<open>readSection\<close> never succeeds: the subtraction wraps to a
  value of at least \<open>2^64 - 8\<close>, and the call returns the ceiling error whenever the
  ceiling is below that value. (For the ceilings from that value on, the lemma
  \<open>section_underflow\<close> shows the panic of the allocation.)
\<close>

theorem readSection_underflow:
  "(v16 < 2 \<longrightarrow>
      \<not> succeeds (fst (readSection (uint16Byte v16 @ rest) 2 maxSize)) \<and>
      (maxSize < ucast v16 - 2 \<longrightarrow>
         readSection (uint16Byte v16 @ rest) 2 maxSize =
           (Returns (section_error (uint16Byte v16)
              (computed_size_msg (ucast v16 - 2) maxSize)), rest))) \<and>
   (v32 < 4 \<longrightarrow>
      \<not> succeeds (fst (readSection (uint32Byte v32 @ rest) 4 maxSize)) \<and>
      (maxSize < ucast v32 - 4 \<longrightarrow>
         readSection (uint32Byte v32 @ rest) 4 maxSize =
           (Returns (section_error (uint32Byte v32)
              (computed_size_msg (ucast v32 - 4) maxSize)), rest))) \<and>
   (v64 < 8 \<longrightarrow>
      \<not> succeeds (fst (readSection (uint64Byte v64 @ rest) 8 maxSize)) \<and>
      (maxSize < v64 - 8 \<longrightarrow>
         readSection (uint64Byte v64 @ rest) 8 maxSize =
           (Returns (section_error (uint64Byte v64)
              (computed_size_msg (v64 - 8) maxSize)), rest)))"
proof (intro conjI impI)
  assume "v16 < 2"
  then have "(ucast v16 :: uint64) < 2"
    by (simp add: word_less_nat_alt unat_ucast16)
  then have "readSection (uint16Byte v16 @ rest) 2 maxSize =
        (if maxSize < ucast v16 - 2
         then (Returns (section_error (uint16Byte v16)
                 (computed_size_msg (ucast v16 - 2) maxSize)), rest)
         else (Panics ''runtime error: makeslice: len out of range'', rest))"
    by (intro section_underflow [OF prefix16]) simp_all
  then show "\<not> succeeds (fst (readSection (uint16Byte v16 @ rest) 2 maxSize))"
    by (simp add: succeeds_def section_error_def)
next
  assume "v32 < 4"
  then have "(ucast v32 :: uint64) < 4"
    by (simp add: word_less_nat_alt unat_ucast32)
  then have "readSection (uint32Byte v32 @ rest) 4 maxSize =
        (if maxSize < ucast v32 - 4
         then (Returns (section_error (uint32Byte v32)
                 (computed_size_msg (ucast v32 - 4) maxSize)), rest)
         else (Panics ''runtime error: makeslice: len out of range'', rest))"
    by (intro section_underflow [OF prefix32]) simp_all
  then show "\<not> succeeds (fst (readSection (uint32Byte v32 @ rest) 4 maxSize))"
    by (simp add: succeeds_def section_error_def)
next
  assume "v64 < 8"
  then have "readSection (uint64Byte v64 @ rest) 8 maxSize =
        (if maxSize < v64 - 8
         then (Returns (section_error (uint64Byte v64)
                 (computed_size_msg (v64 - 8) maxSize)), rest)
         else (Panics ''runtime error: makeslice: len out of range'', rest))"
    by (intro section_underflow [OF prefix64]) simp_all
  then show "\<not> succeeds (fst (readSection (uint64Byte v64 @ rest) 8 maxSize))"
    by (simp add: succeeds_def section_error_def)
next
  assume "maxSize < ucast v16 - 2"
  then show "readSection (uint16Byte v16 @ rest) 2 maxSize =
           (Returns (section_error (uint16Byte v16)
              (computed_size_msg (ucast v16 - 2) maxSize)), rest)"
    by (rule section_too_large [OF prefix16])
next
  assume "maxSize < ucast v32 - 4"
  then show "readSection (uint32Byte v32 @ rest) 4 maxSize =
           (Returns (section_error (uint32Byte v32)
              (computed_size_msg (ucast v32 - 4) maxSize)), rest)"
    by (rule section_too_large [OF prefix32])
next
  assume "maxSize < v64 - 8"
  then show "readSection (uint64Byte v64 @ rest) 8 maxSize =
           (Returns (section_error (uint64Byte v64)
              (computed_size_msg (v64 - 8) maxSize)), rest)"
    by (rule section_too_large [OF prefix64])
qed

theorem readSection_underflow_witness:
  "\<not> succeeds (fst (readSection ([1, 0] @ [5, 5]) 2 100)) \<and>
   \<not> succeeds (fst (readSection ([3, 0, 0, 0] @ [5, 5]) 4 100)) \<and>
   \<not> succeeds (fst (readSection ([7, 0, 0, 0, 0, 0, 0, 0] @ [5, 5]) 8 100)) \<and>
   readSection ([1, 0] @ [5, 5]) 2 100 =
     (Returns \<lparr>sec_data = [1, 0], sec_nr = None, sec_size = 0,
        sec_err = Some ''golnk.readSection: invalid computed size got 18446744073709551615; expected a size < 100''\<rparr>,
      [5, 5]) \<and>
   readSection ([3, 0, 0, 0] @ [5, 5]) 4 100 =
     (Returns \<lparr>sec_data = [3, 0, 0, 0], sec_nr = None, sec_size = 0,
        sec_err = Some ''golnk.readSection: invalid computed size got 18446744073709551615; expected a size < 100''\<rparr>,
      [5, 5]) \<and>
   readSection ([7, 0, 0, 0, 0, 0, 0, 0] @ [5, 5]) 8 100 =
     (Returns \<lparr>sec_data = [7, 0, 0, 0, 0, 0, 0, 0], sec_nr = None, sec_size = 0,
        sec_err = Some ''golnk.readSection: invalid computed size got 18446744073709551615; expected a size < 100''\<rparr>,
      [5, 5])"
  using readSection_underflow [of 1 "[5, 5]" 100 3 7]
  by (simp add: uint16Byte_def uint32Byte_def uint64Byte_def section_error_def
        computed_size_msg_def succeeds_def unsigned_minus_1_eq_mask mask_eq_exp_minus_1
        dec.simps)

text \<open>
  With a ceiling of \<open>2^64 - 1\<close> and a declared size of 0 under a 2-byte prefix no
  decode error is returned: the computed size \<open>2^64 - 2\<close> passes the ceiling test and
  \<open>make\<close> panics.
\<close>

theorem readSection_underflow_counterexample:
  "LittleEndian_Uint16 [0x00, 0x00] < 2 \<and>
   readSection [0x00, 0x00] 2 0xFFFFFFFFFFFFFFFF =
     (Panics ''runtime error: makeslice: len out of range'', []) \<and>
   \<not> decode_error (fst (readSection [0x00, 0x00] 2 0xFFFFFFFFFFFFFFFF))"
  by (simp add: readSection_def readSection_prefix_def ReadFull_def LittleEndian_Uint16_def
        uint16Byte_def decode_error_def maxAlloc_def)

section \<open>Length-prefixed strings: the doubled length\<close>

lemma ReadFull_zero: "ReadFull 0 r = (Inr [], r)"
  by (simp add: ReadFull_def)

lemma ReadFull_short: "length r < n \<Longrightarrow> \<exists>e r'. ReadFull n r = (Inl e, r')"
  by (auto simp: ReadFull_def)

lemma content_size_double:
  "unat L < 2 ^ 15 \<Longrightarrow> unat (content_size L True) = 2 * unat L"
  by (simp add: content_size_def unat_word_ariths)

lemma readStringData_short:
  assumes "unat L < 2 ^ 15" "length rest < 2 * unat L"
  shows "\<exists>e r'. readStringData (uint16Byte L @ rest) True = (([], Some e), r')"
proof -
  have len: "length (uint16Byte L) = 2" by (simp add: uint16Byte_def)
  have rd: "ReadFull 2 (uint16Byte L @ rest) = (Inr (uint16Byte L), rest)"
    using ReadFull_append [of "uint16Byte L" rest] by (simp add: len)
  from assms obtain e r' where
    "ReadFull (unat (content_size L True)) rest = (Inl e, r')"
    using ReadFull_short [of rest "unat (content_size L True)"]
    by (auto simp: content_size_double)
  then show ?thesis
    by (simp add: readStringData_def rd uint16_roundtrip)
qed

text \<open>
  Claim C4. For a declared length below \<open>2^15\<close> the buffer to fill has twice the
  declared length and a shorter stream gives an error (\<open>content_size_double\<close>,
  \<open>readStringData_short\<close>). The doubling is a \<open>uint16\<close> product, so from \<open>2^15\<close> on it
  wraps: a declared length of \<open>0x8000\<close> asks for 0 content bytes instead of 65536, and
  on a stream that ends after the length field the call returns the empty string
  with a nil error.
\<close>

theorem readStringData_length_wraps:
  "LittleEndian_Uint16 [0x00, 0x80] = 0x8000 \<and>
   content_size 0x8000 True = 0 \<and>
   readStringData [0x00, 0x80] True = (([], None), [])"
  by (simp add: content_size_def readStringData_def ReadFull_def LittleEndian_Uint16_def
        pair_runes_def string_of_runes_def)

section \<open>Null-terminated double-byte strings: pairs and code points\<close>

lemma pairs_short: "length xs < 2 \<Longrightarrow> pairs xs = []"
  by (cases xs rule: pairs.cases) simp_all

lemma drop_two:
  assumes "i < length data div 2"
  shows "drop (i * 2) data = data ! (i * 2) # data ! (i * 2 + 1) # drop ((i + 1) * 2) data"
proof -
  from assms have "i * 2 < length data" "Suc (i * 2) < length data" by simp_all
  then show ?thesis by (simp add: Cons_nth_drop_Suc)
qed

lemma loop_length:
  "length (readUnicodeString_loop data i runes) =
     length runes + length (takeWhile (\<lambda>p. p \<noteq> (0, 0)) (pairs (drop (i * 2) data)))"
proof (induction data i runes rule: readUnicodeString_loop.induct)
  case (1 data i runes)
  show ?case
  proof (cases "i < length data div 2")
    case False
    then have "pairs (drop (i * 2) data) = []" by (intro pairs_short) simp
    with False show ?thesis by (simp add: readUnicodeString_loop.simps [of data i])
  next
    case True
    note d = drop_two [OF True]
    show ?thesis
    proof (cases "data ! (i * 2) = 0 \<and> data ! (i * 2 + 1) = 0")
      case z: True
      with True show ?thesis
        by (simp add: readUnicodeString_loop.simps [of data i] d)
    next
      case nz: False
      from "1.IH" [OF True nz] True nz show ?thesis
        by (subst readUnicodeString_loop.simps) (auto simp add: d)
    qed
  qed
qed

lemma readUnicodeString_runes_count:
  "length (readUnicodeString_runes data) = length (takeWhile (\<lambda>p. p \<noteq> (0, 0)) (pairs data))"
  using loop_length [of data 0 "[]"] by (simp add: readUnicodeString_runes_def)

lemma pairs_odd: "even (length xs) \<Longrightarrow> pairs (xs @ [b]) = pairs xs"
  by (induction xs rule: pairs.induct) auto


lemma readUnicodeString_AB:
  "readUnicodeString [0x41, 0x00, 0x42, 0x00, 0x00, 0x00, 0x43, 0x00] = [0x41, 0x42]"
  by (simp add: readUnicodeString_def readUnicodeString_runes_def
        readUnicodeString_loop.simps DecodeRune_def utf8_first_def acceptRanges_def
        string_of_runes_def EncodeRune_def encode3_def RuneError_def)

text \<open>
  Claim C7. The scan is pair-aligned, stops at the first all-zero pair, gives one code
  point for each pair before it and for no odd trailing byte, and never fails
  (\<open>readUnicodeString_runes_count\<close>, \<open>pairs_odd\<close>). The code point of a pair is however
  decoded by \<open>utf8.DecodeRune\<close> from all the bytes that follow the start of the
  pair, so an odd trailing byte is not ignored: the buffer \<open>E2 82 AC\<close> decodes to the
  code point \<open>U+20AC\<close>, built from the pair and the trailing byte, while the buffer
  \<open>E2 82\<close> without it decodes to \<open>U+FFFD\<close>.
\<close>

theorem readUnicodeString_trailing_byte:
  "readUnicodeString_runes [0xE2, 0x82, 0xAC] = [0x20AC] \<and>
   readUnicodeString [0xE2, 0x82, 0xAC] = [0xE2, 0x82, 0xAC] \<and>
   readUnicodeString_runes [0xE2, 0x82] = [0xFFFD] \<and>
   readUnicodeString [0xE2, 0x82] = [0xEF, 0xBF, 0xBD]"
  by (simp add: readUnicodeString_def readUnicodeString_runes_def
        readUnicodeString_loop.simps DecodeRune_def utf8_first_def acceptRanges_def
        string_of_runes_def EncodeRune_def encode3_def RuneError_def)

end
